theory Spec2Isabelle
  imports Main "HOL-Library.Word"
begin

section \<open>The sync gateway of packages/backend/server/src/core/sync/gateway.ts\<close>

text \<open>
  The gateway routes socket messages to one of two session adapters (workspace,
  userspace). An adapter keeps no state of its own: room membership lives in the socket
  (\<open>client.rooms\<close>), documents live behind the storage adapters, the doc reader and the
  permission service. The model threads one record through every operation: the rooms of
  the connection, the state behind the external services, and the sequence of external
  effects (events sent, service calls made) in the order the code performs them.
\<close>

subsection \<open>Space identity and room names\<close>

datatype SpaceType = Workspace | Userspace

text \<open>The string values of the enum: \<open>Workspace = 'workspace'\<close>, \<open>Userspace = 'userspace'\<close>.\<close>

fun SpaceType_value :: "SpaceType \<Rightarrow> string" where
  "SpaceType_value Workspace = ''workspace''"
| "SpaceType_value Userspace = ''userspace''"

text \<open>
  \<open>type RoomType = 'sync' | `${string}:awareness`\<close>: the constructor \<open>Awareness docId\<close>
  stands for the string \<open>docId:awareness\<close>, which is the only way the gateway builds one.
\<close>

datatype RoomType = Sync | Awareness string

fun RoomType_value :: "RoomType \<Rightarrow> string" where
  "RoomType_value Sync = ''sync''"
| "RoomType_value (Awareness docId) = docId @ '':awareness''"

text \<open>\<open>function Room(spaceId, type = 'sync')\<close> returns \<open>`${spaceId}:${type}`\<close>.\<close>

definition Room :: "string \<Rightarrow> RoomType \<Rightarrow> string" where
  "Room spaceId ty = spaceId @ '':'' @ RoomType_value ty"

text \<open>\<open>SyncSocketAdapter.room\<close>: \<open>`${this.spaceType}:${Room(spaceId, roomType)}`\<close>.\<close>

definition room :: "SpaceType \<Rightarrow> string \<Rightarrow> RoomType \<Rightarrow> string" where
  "room spaceType spaceId roomType = SpaceType_value spaceType @ '':'' @ Room spaceId roomType"

subsection \<open>Errors, events, effects\<close>

datatype error =
    VersionRejected string string
  | SpaceAccessDenied string
  | NotInSpace string
  | DocNotFound string string

type_synonym bytes = "8 word list"

text \<open>The shape \<open>{missing, state, timestamp}\<close>: binary from storage, base64 text in the reply.\<close>

record 'a DocRecord =
  missing :: 'a
  state :: 'a
  timestamp :: int

text \<open>
  Outbound events with their payload fields in the order the code writes them:
  \<^item> \<open>server-version-rejected {currentVersion, requiredVersion, reason}\<close>
  \<^item> \<open>space:broadcast-doc-updates {spaceType, spaceId, docId, updates, timestamp}\<close>
  \<^item> \<open>space:broadcast-doc-update {spaceType, spaceId, docId, update, timestamp, editor}\<close>
  \<^item> \<open>server-updates {workspaceId, guid, updates, timestamp}\<close>
\<close>

datatype event =
    server_version_rejected "string option" string string
  | space_broadcast_doc_updates SpaceType string string "string list" int
  | space_broadcast_doc_update SpaceType string string string int string
  | server_updates string string "string list" int

text \<open>
  What an operation does to the outside, in order: \<open>Emit\<close> is \<open>client.emit\<close> (to the
  calling connection), \<open>Broadcast r\<close> is \<open>client.to(r).emit\<close>; the others are calls of the
  permission service, of the storage adapter bound to a space type, and of the doc reader.
\<close>

datatype 'role effect =
    Emit event
  | Broadcast string event
  | IsWorkspaceMember string string 'role
  | PushDocUpdates SpaceType string string "bytes list" string
  | GetDocDiff SpaceType string string "bytes option"
  | DocReader_getDocDiff string string "bytes option"
  | DeleteDoc SpaceType string string
  | GetSpaceDocTimestamps SpaceType string "int option"

record ('db, 'role) world =
  client_id :: string
  rooms :: "string set"
  db :: 'db
  trace :: "'role effect list"

text \<open>
  The collaborators the gateway is constructed with, none of them in the source files at
  hand: the server version (\<open>AFFiNE.version\<close>), the runtime flag
  \<open>flags/syncClientVersionCheck\<close>, the role \<open>WorkspaceRole.Collaborator\<close>, the permission
  service, the two storage adapters (selected by space type), the doc reader, and the
  base64 codec of \<open>Buffer\<close>. Service results may depend on the state \<open>'db\<close> behind them.

  \<open>DocID\<close> (utils/doc) is not among them either: \<open>DocID_guid docId spaceId\<close> stands for
  \<open>new DocID(docId, spaceId).guid\<close> and is taken as a total function of its two arguments,
  the pure, deterministic mapping with no side effects that the spec describes. Every
  service call is taken to return: a failure inside storage or the permission service is
  outside this model.
\<close>

record ('db, 'role) env =
  AFFiNE_version :: string
  syncClientVersionCheck :: bool
  Collaborator :: 'role
  isWorkspaceMember :: "'db \<Rightarrow> string \<Rightarrow> string \<Rightarrow> 'role \<Rightarrow> bool"
  DocID_guid :: "string \<Rightarrow> string \<Rightarrow> string"
  pushDocUpdates :: "SpaceType \<Rightarrow> 'db \<Rightarrow> string \<Rightarrow> string \<Rightarrow> bytes list \<Rightarrow> string \<Rightarrow> int \<times> 'db"
  getDocDiff :: "SpaceType \<Rightarrow> 'db \<Rightarrow> string \<Rightarrow> string \<Rightarrow> bytes option \<Rightarrow> bytes DocRecord option"
  docReader_getDocDiff :: "'db \<Rightarrow> string \<Rightarrow> string \<Rightarrow> bytes option \<Rightarrow> bytes DocRecord option"
  deleteDoc :: "SpaceType \<Rightarrow> 'db \<Rightarrow> string \<Rightarrow> string \<Rightarrow> 'db"
  getSpaceDocTimestamps :: "SpaceType \<Rightarrow> 'db \<Rightarrow> string \<Rightarrow> int option \<Rightarrow> (string \<times> int) list option"
  base64_decode :: "string \<Rightarrow> bytes"
  base64_encode :: "bytes \<Rightarrow> string"

definition log :: "'role effect \<Rightarrow> ('db, 'role) world \<Rightarrow> ('db, 'role) world" where
  "log e s = s\<lparr>trace := trace s @ [e]\<rparr>"

subsection \<open>The session adapters\<close>

text \<open>\<open>SyncSocketAdapter.in\<close>: \<open>this.client.rooms.has(this.room(spaceId, roomType))\<close>.\<close>

definition in_room :: "SpaceType \<Rightarrow> string \<Rightarrow> RoomType \<Rightarrow> ('db, 'role) world \<Rightarrow> bool" where
  "in_room spaceType spaceId roomType s = (room spaceType spaceId roomType \<in> rooms s)"

text \<open>\<open>SyncSocketAdapter.assertIn\<close>: throws \<open>NotInSpace({spaceId})\<close> when the room is not joined.\<close>

definition assertIn ::
  "SpaceType \<Rightarrow> string \<Rightarrow> RoomType \<Rightarrow> ('db, 'role) world \<Rightarrow> error + unit" where
  "assertIn spaceType spaceId roomType s =
     (if room spaceType spaceId roomType \<notin> rooms s then Inl (NotInSpace spaceId) else Inr ())"

text \<open>
  \<open>assertAccessible(spaceId, userId, permission = WorkspaceRole.Collaborator)\<close>: the
  workspace adapter asks the permission service, the userspace adapter compares the ids
  and does not read its third argument.
\<close>

definition WorkspaceSyncAdapter_assertAccessible ::
  "('db, 'role) env \<Rightarrow> string \<Rightarrow> string \<Rightarrow> 'role option \<Rightarrow> ('db, 'role) world
    \<Rightarrow> (error + unit) \<times> ('db, 'role) world" where
  "WorkspaceSyncAdapter_assertAccessible E spaceId userId permission s =
     (let p = (case permission of None \<Rightarrow> Collaborator E | Some r \<Rightarrow> r);
          s' = log (IsWorkspaceMember spaceId userId p) s
      in if \<not> isWorkspaceMember E (db s) spaceId userId p
         then (Inl (SpaceAccessDenied spaceId), s')
         else (Inr (), s'))"

definition UserspaceSyncAdapter_assertAccessible ::
  "string \<Rightarrow> string \<Rightarrow> 'role option \<Rightarrow> ('db, 'role) world
    \<Rightarrow> (error + unit) \<times> ('db, 'role) world" where
  "UserspaceSyncAdapter_assertAccessible spaceId userId permission s =
     (if spaceId \<noteq> userId then (Inl (SpaceAccessDenied spaceId), s) else (Inr (), s))"

fun assertAccessible ::
  "('db, 'role) env \<Rightarrow> SpaceType \<Rightarrow> string \<Rightarrow> string \<Rightarrow> 'role option \<Rightarrow> ('db, 'role) world
    \<Rightarrow> (error + unit) \<times> ('db, 'role) world" where
  "assertAccessible E Workspace spaceId userId permission s =
     WorkspaceSyncAdapter_assertAccessible E spaceId userId permission s"
| "assertAccessible E Userspace spaceId userId permission s =
     UserspaceSyncAdapter_assertAccessible spaceId userId permission s"

text \<open>
  \<open>SyncSocketAdapter.join\<close>: returns at once when the room is already joined; otherwise
  \<open>assertAccessible(spaceId, userId, WorkspaceRole.Collaborator)\<close>, then \<open>client.join\<close>.
\<close>

definition join ::
  "('db, 'role) env \<Rightarrow> SpaceType \<Rightarrow> string \<Rightarrow> string \<Rightarrow> RoomType \<Rightarrow> ('db, 'role) world
    \<Rightarrow> (error + unit) \<times> ('db, 'role) world" where
  "join E spaceType userId spaceId roomType s =
     (if in_room spaceType spaceId roomType s then (Inr (), s)
      else
        (case assertAccessible E spaceType spaceId userId (Some (Collaborator E)) s of
           (Inl e, s1) \<Rightarrow> (Inl e, s1)
         | (Inr _, s1) \<Rightarrow>
             (Inr (), s1\<lparr>rooms := insert (room spaceType spaceId roomType) (rooms s1)\<rparr>)))"

text \<open>\<open>SyncSocketAdapter.leave\<close>: nothing when the room is not joined, else \<open>client.leave\<close>.\<close>

definition leave ::
  "SpaceType \<Rightarrow> string \<Rightarrow> RoomType \<Rightarrow> ('db, 'role) world \<Rightarrow> (error + unit) \<times> ('db, 'role) world" where
  "leave spaceType spaceId roomType s =
     (if \<not> in_room spaceType spaceId roomType s then (Inr (), s)
      else (Inr (), s\<lparr>rooms := rooms s - {room spaceType spaceId roomType}\<rparr>))"

text \<open>The four storage operations of the base class: \<open>assertIn(spaceId)\<close>, then the storage call.\<close>

definition SyncSocketAdapter_push ::
  "('db, 'role) env \<Rightarrow> SpaceType \<Rightarrow> string \<Rightarrow> string \<Rightarrow> bytes list \<Rightarrow> string
    \<Rightarrow> ('db, 'role) world \<Rightarrow> (error + int) \<times> ('db, 'role) world" where
  "SyncSocketAdapter_push E spaceType spaceId docId updates editorId s =
     (case assertIn spaceType spaceId Sync s of
        Inl e \<Rightarrow> (Inl e, s)
      | Inr _ \<Rightarrow>
          (case pushDocUpdates E spaceType (db s) spaceId docId updates editorId of
             (ts, d) \<Rightarrow>
               (Inr ts, log (PushDocUpdates spaceType spaceId docId updates editorId) (s\<lparr>db := d\<rparr>))))"

definition SyncSocketAdapter_diff ::
  "('db, 'role) env \<Rightarrow> SpaceType \<Rightarrow> string \<Rightarrow> string \<Rightarrow> bytes option
    \<Rightarrow> ('db, 'role) world \<Rightarrow> (error + bytes DocRecord option) \<times> ('db, 'role) world" where
  "SyncSocketAdapter_diff E spaceType spaceId docId stateVector s =
     (case assertIn spaceType spaceId Sync s of
        Inl e \<Rightarrow> (Inl e, s)
      | Inr _ \<Rightarrow>
          (Inr (getDocDiff E spaceType (db s) spaceId docId stateVector),
           log (GetDocDiff spaceType spaceId docId stateVector) s))"

definition SyncSocketAdapter_delete ::
  "('db, 'role) env \<Rightarrow> SpaceType \<Rightarrow> string \<Rightarrow> string
    \<Rightarrow> ('db, 'role) world \<Rightarrow> (error + unit) \<times> ('db, 'role) world" where
  "SyncSocketAdapter_delete E spaceType spaceId docId s =
     (case assertIn spaceType spaceId Sync s of
        Inl e \<Rightarrow> (Inl e, s)
      | Inr _ \<Rightarrow>
          (Inr (), log (DeleteDoc spaceType spaceId docId)
                     (s\<lparr>db := deleteDoc E spaceType (db s) spaceId docId\<rparr>)))"

definition SyncSocketAdapter_getTimestamps ::
  "('db, 'role) env \<Rightarrow> SpaceType \<Rightarrow> string \<Rightarrow> int option
    \<Rightarrow> ('db, 'role) world \<Rightarrow> (error + (string \<times> int) list option) \<times> ('db, 'role) world" where
  "SyncSocketAdapter_getTimestamps E spaceType spaceId since s =
     (case assertIn spaceType spaceId Sync s of
        Inl e \<Rightarrow> (Inl e, s)
      | Inr _ \<Rightarrow>
          (Inr (getSpaceDocTimestamps E spaceType (db s) spaceId since),
           log (GetSpaceDocTimestamps spaceType spaceId since) s))"

text \<open>
  The workspace adapter overrides \<open>push\<close> (translate the doc id, then \<open>super.push\<close>) and
  \<open>diff\<close> (translate the doc id, then \<open>this.docReader.getDocDiff\<close>).
\<close>

definition WorkspaceSyncAdapter_push ::
  "('db, 'role) env \<Rightarrow> string \<Rightarrow> string \<Rightarrow> bytes list \<Rightarrow> string
    \<Rightarrow> ('db, 'role) world \<Rightarrow> (error + int) \<times> ('db, 'role) world" where
  "WorkspaceSyncAdapter_push E spaceId docId updates editorId s =
     (let guid = DocID_guid E docId spaceId
      in SyncSocketAdapter_push E Workspace spaceId guid updates editorId s)"

definition WorkspaceSyncAdapter_diff ::
  "('db, 'role) env \<Rightarrow> string \<Rightarrow> string \<Rightarrow> bytes option
    \<Rightarrow> ('db, 'role) world \<Rightarrow> (error + bytes DocRecord option) \<times> ('db, 'role) world" where
  "WorkspaceSyncAdapter_diff E spaceId docId stateVector s =
     (let guid = DocID_guid E docId spaceId
      in (Inr (docReader_getDocDiff E (db s) spaceId guid stateVector),
          log (DocReader_getDocDiff spaceId guid stateVector) s))"

text \<open>Method dispatch on the adapter \<open>selectAdapter(client, spaceType)\<close> returns.\<close>

fun push ::
  "('db, 'role) env \<Rightarrow> SpaceType \<Rightarrow> string \<Rightarrow> string \<Rightarrow> bytes list \<Rightarrow> string
    \<Rightarrow> ('db, 'role) world \<Rightarrow> (error + int) \<times> ('db, 'role) world" where
  "push E Workspace spaceId docId updates editorId s =
     WorkspaceSyncAdapter_push E spaceId docId updates editorId s"
| "push E Userspace spaceId docId updates editorId s =
     SyncSocketAdapter_push E Userspace spaceId docId updates editorId s"

fun diff ::
  "('db, 'role) env \<Rightarrow> SpaceType \<Rightarrow> string \<Rightarrow> string \<Rightarrow> bytes option
    \<Rightarrow> ('db, 'role) world \<Rightarrow> (error + bytes DocRecord option) \<times> ('db, 'role) world" where
  "diff E Workspace spaceId docId stateVector s =
     WorkspaceSyncAdapter_diff E spaceId docId stateVector s"
| "diff E Userspace spaceId docId stateVector s =
     SyncSocketAdapter_diff E Userspace spaceId docId stateVector s"

definition delete ::
  "('db, 'role) env \<Rightarrow> SpaceType \<Rightarrow> string \<Rightarrow> string
    \<Rightarrow> ('db, 'role) world \<Rightarrow> (error + unit) \<times> ('db, 'role) world" where
  "delete E spaceType spaceId docId s = SyncSocketAdapter_delete E spaceType spaceId docId s"

definition getTimestamps ::
  "('db, 'role) env \<Rightarrow> SpaceType \<Rightarrow> string \<Rightarrow> int option
    \<Rightarrow> ('db, 'role) world \<Rightarrow> (error + (string \<times> int) list option) \<times> ('db, 'role) world" where
  "getTimestamps E spaceType spaceId since s =
     SyncSocketAdapter_getTimestamps E spaceType spaceId since s"

subsection \<open>The gateway handlers\<close>

text \<open>
  \<open>assertVersion(client, version?)\<close>: with the flag on and a version other than the
  server's, one \<open>server-version-rejected\<close> event goes to the caller and
  \<open>VersionRejected\<close> is thrown. An absent and an empty version are both falsy in
  \<open>version || 'unknown'\<close> (\<open>version_or_unknown\<close>) and in the reason text
  \<open>`Client version${version ? ` ${version}` : ''} is outdated, please update to ...`\<close>.
\<close>

definition version_or_unknown :: "string option \<Rightarrow> string" where
  "version_or_unknown ver =
     (case ver of None \<Rightarrow> ''unknown'' | Some v \<Rightarrow> if v = [] then ''unknown'' else v)"

definition rejected_reason :: "string option \<Rightarrow> string \<Rightarrow> string" where
  "rejected_reason ver required =
     ''Client version''
       @ (case ver of None \<Rightarrow> [] | Some v \<Rightarrow> if v = [] then [] else '' '' @ v)
       @ '' is outdated, please update to '' @ required"

definition assertVersion ::
  "('db, 'role) env \<Rightarrow> string option \<Rightarrow> ('db, 'role) world
    \<Rightarrow> (error + unit) \<times> ('db, 'role) world" where
  "assertVersion E ver s =
     (let shouldCheckClientVersion = syncClientVersionCheck E
      in if shouldCheckClientVersion \<and> ver \<noteq> Some (AFFiNE_version E)
         then
           (Inl (VersionRejected (version_or_unknown ver) (AFFiNE_version E)),
            log (Emit (server_version_rejected ver (AFFiNE_version E)
                   (rejected_reason ver (AFFiNE_version E)))) s)
         else (Inr (), s))"

text \<open>\<open>space:join\<close>: the reply is \<open>{clientId: client.id, success: true}\<close>.\<close>

definition onJoinSpace ::
  "('db, 'role) env \<Rightarrow> string \<Rightarrow> SpaceType \<Rightarrow> string \<Rightarrow> string option
    \<Rightarrow> ('db, 'role) world \<Rightarrow> (error + string \<times> bool) \<times> ('db, 'role) world" where
  "onJoinSpace E user_id spaceType spaceId clientVersion s =
     (case assertVersion E clientVersion s of
        (Inl e, s1) \<Rightarrow> (Inl e, s1)
      | (Inr _, s1) \<Rightarrow>
          (case join E spaceType user_id spaceId Sync s1 of
             (Inl e, s2) \<Rightarrow> (Inl e, s2)
           | (Inr _, s2) \<Rightarrow> (Inr (client_id s2, True), s2)))"

text \<open>\<open>space:join-awareness\<close>: the same with the room \<open>`${docId}:awareness`\<close>.\<close>

definition onJoinAwareness ::
  "('db, 'role) env \<Rightarrow> string \<Rightarrow> SpaceType \<Rightarrow> string \<Rightarrow> string \<Rightarrow> string option
    \<Rightarrow> ('db, 'role) world \<Rightarrow> (error + string \<times> bool) \<times> ('db, 'role) world" where
  "onJoinAwareness E user_id spaceType spaceId docId clientVersion s =
     (case assertVersion E clientVersion s of
        (Inl e, s1) \<Rightarrow> (Inl e, s1)
      | (Inr _, s1) \<Rightarrow>
          (case join E spaceType user_id spaceId (Awareness docId) s1 of
             (Inl e, s2) \<Rightarrow> (Inl e, s2)
           | (Inr _, s2) \<Rightarrow> (Inr (client_id s2, True), s2)))"

text \<open>
  \<open>space:load-doc\<close>: \<open>assertIn\<close>, then \<open>diff\<close> with the state vector decoded when it is
  given and not empty (\<open>stateVector ? Buffer.from(stateVector, 'base64') : undefined\<close>,
  here \<open>stateVector_bytes\<close>); no doc throws \<open>DocNotFound({spaceId, docId})\<close>.
\<close>

definition stateVector_bytes :: "('db, 'role) env \<Rightarrow> string option \<Rightarrow> bytes option" where
  "stateVector_bytes E stateVector =
     (case stateVector of None \<Rightarrow> None
      | Some v \<Rightarrow> if v = [] then None else Some (base64_decode E v))"

definition onLoadSpaceDoc ::
  "('db, 'role) env \<Rightarrow> SpaceType \<Rightarrow> string \<Rightarrow> string \<Rightarrow> string option
    \<Rightarrow> ('db, 'role) world \<Rightarrow> (error + string DocRecord) \<times> ('db, 'role) world" where
  "onLoadSpaceDoc E spaceType spaceId docId stateVector s =
     (case assertIn spaceType spaceId Sync s of
        Inl e \<Rightarrow> (Inl e, s)
      | Inr _ \<Rightarrow>
          (case diff E spaceType spaceId docId (stateVector_bytes E stateVector) s of
             (Inl e, s1) \<Rightarrow> (Inl e, s1)
           | (Inr None, s1) \<Rightarrow> (Inl (DocNotFound spaceId docId), s1)
           | (Inr (Some doc), s1) \<Rightarrow>
               (Inr \<lparr>missing = base64_encode E (missing doc),
                     state = base64_encode E (state doc),
                     timestamp = timestamp doc\<rparr>, s1)))"

text \<open>
  \<open>space:push-doc-updates\<close> (deprecated): push the decoded updates, broadcast
  \<open>space:broadcast-doc-updates\<close> with \<open>{...message, timestamp}\<close>, and for a workspace also
  \<open>server-updates\<close>. The reply is \<open>{accepted: true, timestamp}\<close>.
\<close>

definition onReceiveDocUpdates ::
  "('db, 'role) env \<Rightarrow> string \<Rightarrow> SpaceType \<Rightarrow> string \<Rightarrow> string \<Rightarrow> string list
    \<Rightarrow> ('db, 'role) world \<Rightarrow> (error + bool \<times> int) \<times> ('db, 'role) world" where
  "onReceiveDocUpdates E user_id spaceType spaceId docId updates s =
     (case push E spaceType spaceId docId (map (base64_decode E) updates) user_id s of
        (Inl e, s1) \<Rightarrow> (Inl e, s1)
      | (Inr ts, s1) \<Rightarrow>
          (let s2 = log (Broadcast (room spaceType spaceId Sync)
                      (space_broadcast_doc_updates spaceType spaceId docId updates ts)) s1;
               s3 = (if spaceType = Workspace
                     then log (Broadcast (room spaceType spaceId Sync)
                            (server_updates spaceId (DocID_guid E docId spaceId) updates ts)) s2
                     else s2)
           in (Inr (True, ts), s3)))"

text \<open>
  \<open>space:push-doc-update\<close>: push the one decoded update, broadcast
  \<open>space:broadcast-doc-updates\<close> with \<open>updates: [update]\<close>, then
  \<open>space:broadcast-doc-update\<close> with the editor.
\<close>

definition onReceiveDocUpdate ::
  "('db, 'role) env \<Rightarrow> string \<Rightarrow> SpaceType \<Rightarrow> string \<Rightarrow> string \<Rightarrow> string
    \<Rightarrow> ('db, 'role) world \<Rightarrow> (error + bool \<times> int) \<times> ('db, 'role) world" where
  "onReceiveDocUpdate E user_id spaceType spaceId docId upd s =
     (case push E spaceType spaceId docId [base64_decode E upd] user_id s of
        (Inl e, s1) \<Rightarrow> (Inl e, s1)
      | (Inr ts, s1) \<Rightarrow>
          (let s2 = log (Broadcast (room spaceType spaceId Sync)
                      (space_broadcast_doc_updates spaceType spaceId docId [upd] ts)) s1;
               s3 = log (Broadcast (room spaceType spaceId Sync)
                      (space_broadcast_doc_update spaceType spaceId docId upd ts user_id)) s2
           in (Inr (True, ts), s3)))"

text \<open>The legacy surface: reshape the flat payload and call the current handler.\<close>

definition handleClientHandshakeSync ::
  "('db, 'role) env \<Rightarrow> string \<Rightarrow> string \<Rightarrow> string option
    \<Rightarrow> ('db, 'role) world \<Rightarrow> (error + string \<times> bool) \<times> ('db, 'role) world" where
  "handleClientHandshakeSync E user_id workspaceId ver s =
     (case assertVersion E ver s of
        (Inl e, s1) \<Rightarrow> (Inl e, s1)
      | (Inr _, s1) \<Rightarrow> onJoinSpace E user_id Workspace workspaceId ver s1)"

definition handleClientUpdateV2 ::
  "('db, 'role) env \<Rightarrow> string \<Rightarrow> string \<Rightarrow> string \<Rightarrow> string list
    \<Rightarrow> ('db, 'role) world \<Rightarrow> (error + bool \<times> int) \<times> ('db, 'role) world" where
  "handleClientUpdateV2 E user_id workspaceId guid updates s =
     onReceiveDocUpdates E user_id Workspace workspaceId guid updates s"

definition loadDocV2 ::
  "('db, 'role) env \<Rightarrow> string \<Rightarrow> string \<Rightarrow> string option
    \<Rightarrow> ('db, 'role) world \<Rightarrow> (error + string DocRecord) \<times> ('db, 'role) world" where
  "loadDocV2 E workspaceId guid stateVector s =
     onLoadSpaceDoc E Workspace workspaceId guid stateVector s"

subsection \<open>Reading the effects of a run\<close>

text \<open>The effects an operation added: what follows the first \<open>length (trace s)\<close> entries.\<close>

definition added :: "('db, 'role) world \<Rightarrow> ('db, 'role) world \<Rightarrow> 'role effect list" where
  "added s s' = drop (length (trace s)) (trace s')"

fun is_storage_call :: "'role effect \<Rightarrow> bool" where
  "is_storage_call (PushDocUpdates _ _ _ _ _) = True"
| "is_storage_call (GetDocDiff _ _ _ _) = True"
| "is_storage_call (DocReader_getDocDiff _ _ _) = True"
| "is_storage_call (DeleteDoc _ _ _) = True"
| "is_storage_call (GetSpaceDocTimestamps _ _ _) = True"
| "is_storage_call _ = False"

fun is_access_check :: "'role effect \<Rightarrow> bool" where
  "is_access_check (IsWorkspaceMember _ _ _) = True"
| "is_access_check _ = False"

fun is_broadcast_doc_updates :: "'role effect \<Rightarrow> bool" where
  "is_broadcast_doc_updates (Broadcast _ (space_broadcast_doc_updates _ _ _ _ _)) = True"
| "is_broadcast_doc_updates _ = False"

fun is_server_updates :: "'role effect \<Rightarrow> bool" where
  "is_server_updates (Broadcast _ (server_updates _ _ _ _)) = True"
| "is_server_updates _ = False"

fun is_emit :: "'role effect \<Rightarrow> bool" where
  "is_emit (Emit _) = True"
| "is_emit _ = False"

fun is_broadcast :: "'role effect \<Rightarrow> bool" where
  "is_broadcast (Broadcast _ _) = True"
| "is_broadcast _ = False"

subsection \<open>A concrete gateway for evaluation\<close>

text \<open>
  One user \<open>A\<close> who is a member of the workspace \<open>W1\<close> and of no other; a store that
  stamps each push with the number of pushes so far and holds the one document \<open>D1\<close>; a
  byte-for-character codec in place of base64; a connection that has joined nothing.
\<close>

definition example_env :: "(nat, nat) env" where
  "example_env =
     \<lparr>AFFiNE_version = ''0.18.0'',
      syncClientVersionCheck = True,
      Collaborator = 1,
      isWorkspaceMember = (\<lambda>d ws u r. ws = ''W1'' \<and> u = ''A''),
      DocID_guid = (\<lambda>docId spaceId. ''guid-'' @ docId),
      pushDocUpdates = (\<lambda>st d spaceId docId ups editor. (int d + 1, d + 1)),
      getDocDiff = (\<lambda>st d spaceId docId sv.
         if docId = ''D1'' then Some \<lparr>missing = [104, 105], state = [33], timestamp = 7\<rparr>
         else None),
      docReader_getDocDiff = (\<lambda>d spaceId docId sv.
         if docId = ''guid-D1'' then Some \<lparr>missing = [104, 105], state = [33], timestamp = 7\<rparr>
         else None),
      deleteDoc = (\<lambda>st d spaceId docId. d),
      getSpaceDocTimestamps = (\<lambda>st d spaceId since. None),
      base64_decode = map (\<lambda>c. of_nat (of_char c)),
      base64_encode = map (\<lambda>b. char_of (unat b))\<rparr>"

definition example_world :: "(nat, nat) world" where
  "example_world = \<lparr>client_id = ''c1'', rooms = {}, db = 0, trace = []\<rparr>"

text \<open>The same connection once \<open>A\<close> has joined the sync room of \<open>W1\<close>.\<close>

definition joined_world :: "(nat, nat) world" where
  "joined_world = \<lparr>client_id = ''c1'', rooms = {''workspace:W1:sync''}, db = 0,
     trace = [IsWorkspaceMember ''W1'' ''A'' 1]\<rparr>"

section \<open>Properties\<close>

subsection \<open>Basic facts\<close>

lemma log_simps [simp]:
  "trace (log e s) = trace s @ [e]"
  "rooms (log e s) = rooms s"
  "db (log e s) = db s"
  "client_id (log e s) = client_id s"
  by (simp_all add: log_def)

lemma added_append [simp]: "trace s' = trace s @ xs \<Longrightarrow> added s s' = xs"
  by (simp add: added_def)

lemma added_same [simp]: "added s s = []"
  by (simp add: added_def)

subsection \<open>Room names\<close>

text \<open>A room type is determined by its string: \<open>sync\<close> is shorter than any awareness suffix.\<close>

lemma RoomType_value_inject: "RoomType_value t1 = RoomType_value t2 \<Longrightarrow> t1 = t2"
proof (cases t1; cases t2)
  fix d assume "t1 = Sync" "t2 = Awareness d" "RoomType_value t1 = RoomType_value t2"
  then have "length ''sync'' = length (d @ '':awareness'')" by simp
  then show "t1 = t2" by simp
next
  fix d assume "t1 = Awareness d" "t2 = Sync" "RoomType_value t1 = RoomType_value t2"
  then have "length ''sync'' = length (d @ '':awareness'')" by simp
  then show "t1 = t2" by simp
qed auto

lemma room_unfold:
  "room st s t = SpaceType_value st @ '':'' @ s @ '':'' @ RoomType_value t"
  by (simp add: room_def Room_def)

lemma split_at_first_separator:
  "c \<notin> set xs \<Longrightarrow> c \<notin> set ys \<Longrightarrow> xs @ c # us = ys @ c # vs \<Longrightarrow> xs = ys \<and> us = vs"
proof (induction xs arbitrary: ys)
  case Nil
  then show ?case by (cases ys) auto
next
  case (Cons x xs)
  then show ?case by (cases ys) auto
qed

lemma room_inject_colon_free:
  assumes "CHR '':'' \<notin> set s1" "CHR '':'' \<notin> set s2" "room st s1 t1 = room st s2 t2"
  shows "s1 = s2 \<and> t1 = t2"
proof -
  from assms(3) have "s1 @ CHR '':'' # RoomType_value t1 = s2 @ CHR '':'' # RoomType_value t2"
    by (simp add: room_unfold)
  with assms(1,2) have "s1 = s2 \<and> RoomType_value t1 = RoomType_value t2"
    using split_at_first_separator [of "CHR '':''" s1 s2 "RoomType_value t1" "RoomType_value t2"]
    by blast
  then show ?thesis by (simp add: RoomType_value_inject)
qed

text \<open>
  When two room names are equal: the two strings \<open><spaceId>:<roomType>\<close> split at a colon
  of the one or of the other.
\<close>

lemma sync_has_no_colon: "''sync'' \<noteq> r @ CHR '':'' # v"
proof
  assume "''sync'' = r @ CHR '':'' # v"
  then have "set ''sync'' = set (r @ CHR '':'' # v)" by simp
  then show False by auto
qed

lemma awareness_is_not_sync_suffix: "d @ '':awareness'' \<noteq> r @ '':sync''"
proof
  assume "d @ '':awareness'' = r @ '':sync''"
  then have "rev (d @ '':awareness'') = rev (r @ '':sync'')" by simp
  then show False by simp
qed

text \<open>The value of a room type, continued after a colon, as the value of another.\<close>

lemma RoomType_value_shift:
  "(RoomType_value t2 = r @ CHR '':'' # RoomType_value t1) =
     (\<exists>d1 d2. t1 = Awareness d1 \<and> t2 = Awareness d2 \<and> d2 = r @ CHR '':'' # d1)"
proof (cases t1; cases t2)
  fix d1 d2 assume a: "t1 = Awareness d1" "t2 = Awareness d2"
  have "(d2 @ '':awareness'' = r @ CHR '':'' # d1 @ '':awareness'')
      = (d2 @ '':awareness'' = (r @ CHR '':'' # d1) @ '':awareness'')" by simp
  also have "\<dots> = (d2 = r @ CHR '':'' # d1)" by (simp only: append_same_eq)
  finally show ?thesis using a by simp
next
  fix d1 assume "t1 = Awareness d1" "t2 = Sync"
  then show ?thesis using sync_has_no_colon [of r "d1 @ '':awareness''"] by simp
next
  fix d2 assume "t1 = Sync" "t2 = Awareness d2"
  then show ?thesis using awareness_is_not_sync_suffix [of d2 "r"] by simp
next
  assume "t1 = Sync" "t2 = Sync"
  then show ?thesis using sync_has_no_colon [of r "''sync''"] by simp
qed

lemma colon_join_eq:
  "(s1 @ CHR '':'' # v1 = s2 @ CHR '':'' # v2) =
     ((s1 = s2 \<and> v1 = v2)
      \<or> (\<exists>r. s1 = s2 @ CHR '':'' # r \<and> v2 = r @ CHR '':'' # v1)
      \<or> (\<exists>r. s2 = s1 @ CHR '':'' # r \<and> v1 = r @ CHR '':'' # v2))"
  (is "?L = ?R")
proof
  assume ?L
  then obtain us where
    "(s1 = s2 @ us \<and> us @ CHR '':'' # v1 = CHR '':'' # v2)
     \<or> (s1 @ us = s2 \<and> CHR '':'' # v1 = us @ CHR '':'' # v2)"
    by (auto simp: append_eq_append_conv2)
  then show ?R
    by (cases us) auto
next
  assume ?R
  then show ?L by auto
qed

lemma room_collision_exact:
  "(room st s1 t1 = room st s2 t2) =
     ((s1 = s2 \<and> t1 = t2)
      \<or> (\<exists>r d1 d2. t1 = Awareness d1 \<and> t2 = Awareness d2
            \<and> ((s1 = s2 @ CHR '':'' # r \<and> d2 = r @ CHR '':'' # d1)
               \<or> (s2 = s1 @ CHR '':'' # r \<and> d1 = r @ CHR '':'' # d2))))"
proof -
  have "(room st s1 t1 = room st s2 t2)
      = (s1 @ CHR '':'' # RoomType_value t1 = s2 @ CHR '':'' # RoomType_value t2)"
    by (simp add: room_unfold)
  also have "\<dots> = ((s1 = s2 \<and> RoomType_value t1 = RoomType_value t2)
      \<or> (\<exists>r. s1 = s2 @ CHR '':'' # r \<and> RoomType_value t2 = r @ CHR '':'' # RoomType_value t1)
      \<or> (\<exists>r. s2 = s1 @ CHR '':'' # r \<and> RoomType_value t1 = r @ CHR '':'' # RoomType_value t2))"
    by (rule colon_join_eq)
  also have "\<dots> = ((s1 = s2 \<and> t1 = t2)
      \<or> (\<exists>r d1 d2. t1 = Awareness d1 \<and> t2 = Awareness d2
            \<and> ((s1 = s2 @ CHR '':'' # r \<and> d2 = r @ CHR '':'' # d1)
               \<or> (s2 = s1 @ CHR '':'' # r \<and> d1 = r @ CHR '':'' # d2))))"
    using RoomType_value_inject [of t1 t2]
    by (auto simp: RoomType_value_shift)
  finally show ?thesis .
qed


lemma sync_room_never_collides:
  "room st s1 Sync = room st s2 t2 \<Longrightarrow> s1 = s2 \<and> t2 = Sync"
  by (auto simp: room_collision_exact)

lemma awareness_colon_free_docs:
  "CHR '':'' \<notin> set d1 \<Longrightarrow> CHR '':'' \<notin> set d2 \<Longrightarrow>
   room st s1 (Awareness d1) = room st s2 (Awareness d2) \<Longrightarrow> s1 = s2 \<and> d1 = d2"
  by (auto simp: room_collision_exact)

text \<open>
  C5, as stated, fails: a colon in a space id moves the boundary between the space id and
  the doc id of an awareness room. The space \<open>a\<close> with the awareness room of doc \<open>b:c\<close>
  and the space \<open>a:b\<close> with the awareness room of doc \<open>c\<close> are different pairs with the
  one name \<open>workspace:a:b:c:awareness\<close>.
\<close>

theorem room_collision_counterexample:
  "room Workspace ''a'' (Awareness ''b:c'') = room Workspace ''a:b'' (Awareness ''c'')
   \<and> (''a'', Awareness ''b:c'') \<noteq> (''a:b'', Awareness ''c'')"
  by (simp add: room_def Room_def)

text \<open>
  C5, amended: the room name is the string \<open><spaceType>:<spaceId>:<roomType>\<close>, a function
  of its three inputs. For a fixed space type, two pairs (space id, room type) have the
  same name exactly when they are the same pair, or both are awareness rooms and one
  space id is the other followed by a colon and a string \<open>r\<close> while the doc id of the other
  is \<open>r\<close> followed by a colon and the doc id of the first. So the name of a sync room is
  the name of no other room, awareness rooms of colon-free doc ids have different names
  unless space and doc agree, and so do any two rooms of colon-free space ids.
\<close>

theorem room_name_composition:
  "room st s t = SpaceType_value st @ '':'' @ s @ '':'' @ RoomType_value t
   \<and> (room st s1 t1 = room st s2 t2) =
       ((s1 = s2 \<and> t1 = t2)
        \<or> (\<exists>r x y. t1 = Awareness x \<and> t2 = Awareness y
              \<and> ((s1 = s2 @ CHR '':'' # r \<and> y = r @ CHR '':'' # x)
                 \<or> (s2 = s1 @ CHR '':'' # r \<and> x = r @ CHR '':'' # y))))
   \<and> (room st s1 Sync = room st s2 t2 \<longrightarrow> s1 = s2 \<and> t2 = Sync)
   \<and> (CHR '':'' \<notin> set d1 \<and> CHR '':'' \<notin> set d2
        \<and> room st s1 (Awareness d1) = room st s2 (Awareness d2) \<longrightarrow> s1 = s2 \<and> d1 = d2)
   \<and> (CHR '':'' \<notin> set s1 \<and> CHR '':'' \<notin> set s2
        \<and> room st s1 t1 = room st s2 t2 \<longrightarrow> s1 = s2 \<and> t1 = t2)"
proof (intro conjI impI)
  show "room st s t = SpaceType_value st @ '':'' @ s @ '':'' @ RoomType_value t"
    by (rule room_unfold)
  show "(room st s1 t1 = room st s2 t2) =
       ((s1 = s2 \<and> t1 = t2)
        \<or> (\<exists>r x y. t1 = Awareness x \<and> t2 = Awareness y
              \<and> ((s1 = s2 @ CHR '':'' # r \<and> y = r @ CHR '':'' # x)
                 \<or> (s2 = s1 @ CHR '':'' # r \<and> x = r @ CHR '':'' # y))))"
    by (rule room_collision_exact)
next
  assume "room st s1 Sync = room st s2 t2"
  then show "s1 = s2" "t2 = Sync"
    using sync_room_never_collides [of st s1 s2 t2] by simp_all
next
  assume "CHR '':'' \<notin> set d1 \<and> CHR '':'' \<notin> set d2
        \<and> room st s1 (Awareness d1) = room st s2 (Awareness d2)"
  then show "s1 = s2" "d1 = d2"
    using awareness_colon_free_docs [of d1 d2 st s1 s2] by simp_all
next
  assume "CHR '':'' \<notin> set s1 \<and> CHR '':'' \<notin> set s2 \<and> room st s1 t1 = room st s2 t2"
  then show "s1 = s2" "t1 = t2"
    using room_inject_colon_free [of s1 s2 st t1 t2] by simp_all
qed

theorem room_name_composition_witness:
  "room Userspace ''u1'' (Awareness ''d:1'') = ''userspace:u1:d:1:awareness''
   \<and> room Workspace ''a'' (Awareness ''b:c'') = room Workspace ''a:b'' (Awareness ''c'')
   \<and> room Workspace ''a:b'' Sync \<noteq> room Workspace ''a'' (Awareness ''b'')
   \<and> CHR '':'' \<notin> set ''b'' \<and> CHR '':'' \<notin> set ''c''
   \<and> room Workspace ''a:b'' (Awareness ''b'') \<noteq> room Workspace ''a'' (Awareness ''c'')
   \<and> CHR '':'' \<notin> set ''u1'' \<and> CHR '':'' \<notin> set ''u2''
   \<and> room Userspace ''u1'' (Awareness ''d:1'') \<noteq> room Userspace ''u2'' (Awareness ''1'')"
proof -
  note t = room_name_composition
  have name: "room Userspace ''u1'' (Awareness ''d:1'') = ''userspace:u1:d:1:awareness''"
    using t [of Userspace "''u1''" "Awareness ''d:1''"] by simp
  have collide: "room Workspace ''a'' (Awareness ''b:c'') = room Workspace ''a:b'' (Awareness ''c'')"
    using t [of Workspace _ _ "''a''" "Awareness ''b:c''" "''a:b''" "Awareness ''c''"] by simp
  have sync: "room Workspace ''a:b'' Sync \<noteq> room Workspace ''a'' (Awareness ''b'')"
    using t [of Workspace _ _ "''a:b''" _ "''a''" "Awareness ''b''"] by auto
  have docs: "room Workspace ''a:b'' (Awareness ''b'') \<noteq> room Workspace ''a'' (Awareness ''c'')"
    using t [of Workspace _ _ "''a:b''" _ "''a''" _ "''b''" "''c''"] by auto
  have spaces: "room Userspace ''u1'' (Awareness ''d:1'') \<noteq> room Userspace ''u2'' (Awareness ''1'')"
    using t [of Userspace _ _ "''u1''" "Awareness ''d:1''" "''u2''" "Awareness ''1''"] by auto
  show ?thesis using name collide sync docs spaces by simp
qed

subsection \<open>Access control\<close>

text \<open>
  C10: the userspace adapter's \<open>assertAccessible\<close> gives the same outcome for any two role
  arguments (given or left out): it succeeds when the space id equals the user id and
  raises \<open>SpaceAccessDenied\<close> otherwise, and calls no service.
\<close>

theorem userspace_assertAccessible_ignores_role:
  "assertAccessible E Userspace spaceId userId r1 s = assertAccessible E Userspace spaceId userId r2 s
   \<and> assertAccessible E Userspace spaceId userId r1 s =
       (if spaceId = userId then Inr () else Inl (SpaceAccessDenied spaceId), s)"
  by (simp add: UserspaceSyncAdapter_assertAccessible_def)

subsection \<open>Joining a room\<close>

lemma join_member: "in_room st sid rt s \<Longrightarrow> join E st u sid rt s = (Inr (), s)"
  by (simp add: join_def)

lemma join_workspace_fresh:
  "\<not> in_room Workspace sid rt s \<Longrightarrow>
   join E Workspace u sid rt s =
     (if isWorkspaceMember E (db s) sid u (Collaborator E)
      then (Inr (), (log (IsWorkspaceMember sid u (Collaborator E)) s)
                      \<lparr>rooms := insert (room Workspace sid rt) (rooms s)\<rparr>)
      else (Inl (SpaceAccessDenied sid), log (IsWorkspaceMember sid u (Collaborator E)) s))"
  by (simp add: join_def WorkspaceSyncAdapter_assertAccessible_def Let_def)

lemma join_userspace_fresh:
  "\<not> in_room Userspace sid rt s \<Longrightarrow>
   join E Userspace u sid rt s =
     (if sid = u then (Inr (), s\<lparr>rooms := insert (room Userspace sid rt) (rooms s)\<rparr>)
      else (Inl (SpaceAccessDenied sid), s))"
  by (simp add: join_def UserspaceSyncAdapter_assertAccessible_def)

lemma join_rooms:
  "rooms (snd (join E st u sid rt s)) =
     (if fst (join E st u sid rt s) = Inr () then insert (room st sid rt) (rooms s) else rooms s)"
proof (cases "in_room st sid rt s")
  case True
  then show ?thesis by (auto simp: join_member in_room_def)
next
  case False
  then show ?thesis
    by (cases st) (simp_all add: join_workspace_fresh join_userspace_fresh)
qed

lemma join_success_iff_member:
  "(fst (join E st u sid rt s) = Inr ()) = in_room st sid rt (snd (join E st u sid rt s))"
proof (cases "in_room st sid rt s")
  case True
  then show ?thesis by (simp add: join_member)
next
  case False
  then show ?thesis
    by (cases st) (auto simp: join_workspace_fresh join_userspace_fresh in_room_def)
qed

lemma join_error: "fst (join E st u sid rt s) = Inl e \<Longrightarrow> e = SpaceAccessDenied sid"
  by (cases "in_room st sid rt s"; cases st)
     (auto simp: join_member join_workspace_fresh join_userspace_fresh split: if_splits)

lemma join_trace:
  "trace (snd (join E st u sid rt s)) =
     trace s @ (if st = Workspace \<and> \<not> in_room st sid rt s
                then [IsWorkspaceMember sid u (Collaborator E)] else [])"
  by (cases "in_room st sid rt s"; cases st)
     (simp_all add: join_member join_workspace_fresh join_userspace_fresh)

lemma join_added:
  "added s (snd (join E st u sid rt s)) =
     (if st = Workspace \<and> \<not> in_room st sid rt s
      then [IsWorkspaceMember sid u (Collaborator E)] else [])"
  by (rule added_append) (rule join_trace)

subsection \<open>The version check\<close>

lemma assertVersion_off:
  "\<not> syncClientVersionCheck E \<Longrightarrow> assertVersion E ver s = (Inr (), s)"
  by (simp add: assertVersion_def)

lemma assertVersion_same:
  "assertVersion E (Some (AFFiNE_version E)) s = (Inr (), s)"
  by (simp add: assertVersion_def)

lemma assertVersion_rejects:
  "syncClientVersionCheck E \<Longrightarrow> ver \<noteq> Some (AFFiNE_version E) \<Longrightarrow>
   assertVersion E ver s =
     (Inl (VersionRejected (version_or_unknown ver) (AFFiNE_version E)),
      log (Emit (server_version_rejected ver (AFFiNE_version E)
             (rejected_reason ver (AFFiNE_version E)))) s)"
  by (simp add: assertVersion_def)

text \<open>
  C3: on \<open>space:join\<close>, with the flag \<open>syncClientVersionCheck\<close> on and a client version
  other than the server's (absent included), the handler raises \<open>VersionRejected\<close>, the
  only thing it does is to emit one \<open>server-version-rejected\<close> event to the calling
  connection, and no room is joined. With the flag off the handler is the join alone,
  whatever the version: it never raises \<open>VersionRejected\<close> and emits nothing.
\<close>

theorem onJoinSpace_version_gate:
  "(syncClientVersionCheck E \<and> clientVersion \<noteq> Some (AFFiNE_version E) \<longrightarrow>
      fst (onJoinSpace E user_id st spaceId clientVersion s)
        = Inl (VersionRejected (version_or_unknown clientVersion) (AFFiNE_version E))
      \<and> added s (snd (onJoinSpace E user_id st spaceId clientVersion s))
        = [Emit (server_version_rejected clientVersion (AFFiNE_version E)
                  (rejected_reason clientVersion (AFFiNE_version E)))]
      \<and> rooms (snd (onJoinSpace E user_id st spaceId clientVersion s)) = rooms s)
   \<and> (\<not> syncClientVersionCheck E \<longrightarrow>
      onJoinSpace E user_id st spaceId clientVersion s =
        (case join E st user_id spaceId Sync s of
           (Inl e, s2) \<Rightarrow> (Inl e, s2)
         | (Inr _, s2) \<Rightarrow> (Inr (client_id s2, True), s2))
      \<and> (\<forall>v sv. fst (onJoinSpace E user_id st spaceId clientVersion s) \<noteq> Inl (VersionRejected v sv))
      \<and> filter is_emit (added s (snd (onJoinSpace E user_id st spaceId clientVersion s))) = [])"
proof (intro conjI impI)
  assume on: "syncClientVersionCheck E \<and> clientVersion \<noteq> Some (AFFiNE_version E)"
  then have run: "onJoinSpace E user_id st spaceId clientVersion s =
     (Inl (VersionRejected (version_or_unknown clientVersion) (AFFiNE_version E)),
      log (Emit (server_version_rejected clientVersion (AFFiNE_version E)
             (rejected_reason clientVersion (AFFiNE_version E)))) s)"
    by (simp add: onJoinSpace_def assertVersion_rejects)
  show "fst (onJoinSpace E user_id st spaceId clientVersion s)
        = Inl (VersionRejected (version_or_unknown clientVersion) (AFFiNE_version E))"
    by (simp add: run)
  show "added s (snd (onJoinSpace E user_id st spaceId clientVersion s))
        = [Emit (server_version_rejected clientVersion (AFFiNE_version E)
                  (rejected_reason clientVersion (AFFiNE_version E)))]"
    by (simp add: run)
  show "rooms (snd (onJoinSpace E user_id st spaceId clientVersion s)) = rooms s"
    by (simp add: run)
next
  assume off: "\<not> syncClientVersionCheck E"
  show run: "onJoinSpace E user_id st spaceId clientVersion s =
        (case join E st user_id spaceId Sync s of
           (Inl e, s2) \<Rightarrow> (Inl e, s2)
         | (Inr _, s2) \<Rightarrow> (Inr (client_id s2, True), s2))"
    by (simp add: onJoinSpace_def assertVersion_off [OF off])
  obtain r s2 where j: "join E st user_id spaceId Sync s = (r, s2)"
    by (cases "join E st user_id spaceId Sync s")
  have snd_eq: "snd (onJoinSpace E user_id st spaceId clientVersion s) = s2"
    by (simp add: run j split: sum.splits)
  show "\<forall>v sv. fst (onJoinSpace E user_id st spaceId clientVersion s) \<noteq> Inl (VersionRejected v sv)"
    using join_error [of E st user_id spaceId Sync s]
    by (auto simp: run j split: sum.splits)
  show "filter is_emit (added s (snd (onJoinSpace E user_id st spaceId clientVersion s))) = []"
    using join_added [of s E st user_id spaceId Sync]
    by (simp add: snd_eq j)
qed

theorem onJoinSpace_version_gate_witness:
  "fst (onJoinSpace example_env ''A'' Workspace ''W1'' (Some ''0.17.0'') example_world)
     = Inl (VersionRejected ''0.17.0'' ''0.18.0'')
   \<and> rooms (snd (onJoinSpace example_env ''A'' Workspace ''W1'' (Some ''0.17.0'') example_world)) = {}
   \<and> fst (onJoinSpace (example_env\<lparr>syncClientVersionCheck := False\<rparr>) ''A'' Workspace ''W1'' None
            example_world) = Inr (''c1'', True)
   \<and> filter is_emit (added example_world
        (snd (onJoinSpace (example_env\<lparr>syncClientVersionCheck := False\<rparr>) ''A'' Workspace ''W1'' None
            example_world))) = []"
  using onJoinSpace_version_gate
      [of example_env "Some ''0.17.0''" "''A''" Workspace "''W1''" example_world]
    onJoinSpace_version_gate
      [of "example_env\<lparr>syncClientVersionCheck := False\<rparr>" None "''A''" Workspace "''W1''" example_world]
  by (simp add: example_env_def example_world_def join_def in_room_def room_def Room_def
      WorkspaceSyncAdapter_assertAccessible_def log_def onJoinSpace_def assertVersion_def
      version_or_unknown_def rejected_reason_def)


subsection \<open>Access control on join\<close>

text \<open>
  C1, as stated, fails: \<open>join\<close> returns before the access check when the connection is
  already in a room of that name. A user \<open>U\<close> in the awareness room of doc \<open>a:b\<close> of the
  own userspace \<open>U\<close> joins the awareness room of doc \<open>b\<close> of the userspace \<open>U:a\<close>, which
  is not the user's id; the member \<open>A\<close> of workspace \<open>W1\<close> does the same with the workspace
  \<open>W1:a\<close>, of which \<open>A\<close> is no member; and \<open>A\<close> joins \<open>W1\<close> again after the permission
  service stopped listing anyone as a member. None of the three raises.
\<close>

theorem join_access_control_counterexample:
  "''U:a'' \<noteq> ''U''
   \<and> fst (join example_env Userspace ''U'' ''U:a'' (Awareness ''b'')
            (snd (join example_env Userspace ''U'' ''U'' (Awareness ''a:b'') example_world)))
       = Inr ()
   \<and> \<not> isWorkspaceMember example_env (db example_world) ''W1:a'' ''A'' (Collaborator example_env)
   \<and> fst (join example_env Workspace ''A'' ''W1:a'' (Awareness ''b'')
            (snd (join example_env Workspace ''A'' ''W1'' (Awareness ''a:b'') example_world)))
       = Inr ()
   \<and> fst (join (example_env\<lparr>isWorkspaceMember := \<lambda>d ws u r. False\<rparr>) Workspace ''A'' ''W1'' Sync
            (snd (join example_env Workspace ''A'' ''W1'' Sync example_world)))
       = Inr ()"
  by (simp add: example_env_def example_world_def join_def in_room_def room_def Room_def
      UserspaceSyncAdapter_assertAccessible_def WorkspaceSyncAdapter_assertAccessible_def)

text \<open>
  C1, amended: for every join on a room the connection is not already in, a user who is
  not a member of the workspace at role Collaborator gets \<open>SpaceAccessDenied\<close> on a
  workspace, a user whose id differs from the space id gets \<open>SpaceAccessDenied\<close> on a
  userspace, in both cases with the rooms unchanged; and a join that succeeds leaves the
  connection in the room.
\<close>

theorem join_access_control:
  "\<not> in_room st spaceId roomType s \<Longrightarrow>
     (st = Workspace \<and> \<not> isWorkspaceMember E (db s) spaceId userId (Collaborator E) \<longrightarrow>
        fst (join E st userId spaceId roomType s) = Inl (SpaceAccessDenied spaceId)
        \<and> rooms (snd (join E st userId spaceId roomType s)) = rooms s)
   \<and> (st = Userspace \<and> spaceId \<noteq> userId \<longrightarrow>
        fst (join E st userId spaceId roomType s) = Inl (SpaceAccessDenied spaceId)
        \<and> rooms (snd (join E st userId spaceId roomType s)) = rooms s)
   \<and> (fst (join E st userId spaceId roomType s) = Inr () \<longrightarrow>
        rooms (snd (join E st userId spaceId roomType s))
          = insert (room st spaceId roomType) (rooms s))"
  by (cases st) (simp_all add: join_workspace_fresh join_userspace_fresh)

theorem join_access_control_witness:
  "\<not> in_room Workspace ''W1'' Sync example_world
   \<and> \<not> isWorkspaceMember example_env (db example_world) ''W1'' ''B'' (Collaborator example_env)
   \<and> fst (join example_env Workspace ''B'' ''W1'' Sync example_world) = Inl (SpaceAccessDenied ''W1'')
   \<and> \<not> in_room Userspace ''A'' Sync example_world
   \<and> fst (join example_env Userspace ''B'' ''A'' Sync example_world) = Inl (SpaceAccessDenied ''A'')
   \<and> fst (join example_env Workspace ''A'' ''W1'' Sync example_world) = Inr ()
   \<and> rooms (snd (join example_env Workspace ''A'' ''W1'' Sync example_world)) = {''workspace:W1:sync''}"
proof -
  have fresh: "\<not> in_room Workspace ''W1'' Sync example_world"
      "\<not> in_room Userspace ''A'' Sync example_world"
    by (simp_all add: in_room_def example_world_def)
  have denied: "\<not> isWorkspaceMember example_env (db example_world) ''W1'' ''B'' (Collaborator example_env)"
    by (simp add: example_env_def)
  have ok: "fst (join example_env Workspace ''A'' ''W1'' Sync example_world) = Inr ()"
    by (simp add: example_env_def example_world_def join_def in_room_def
        WorkspaceSyncAdapter_assertAccessible_def)
  have r: "room Workspace ''W1'' Sync = ''workspace:W1:sync''" "rooms example_world = {}"
    by (simp_all add: room_def Room_def example_world_def)
  show ?thesis
    using fresh denied ok r
      join_access_control [OF fresh(1), where E = example_env and userId = "''B''"]
      join_access_control [OF fresh(2), where E = example_env and userId = "''B''"]
      join_access_control [OF fresh(1), where E = example_env and userId = "''A''"]
    by simp
qed

subsection \<open>Joining twice\<close>

lemma join_db [simp]: "db (snd (join E st u sid rt s)) = db s"
  by (cases "in_room st sid rt s"; cases st)
     (simp_all add: join_member join_workspace_fresh join_userspace_fresh)

lemma join_twice_rooms:
  "rooms (snd (join E st u sid rt (snd (join E st u sid rt s)))) = rooms (snd (join E st u sid rt s))"
proof (cases "fst (join E st u sid rt s) = Inr ()")
  case True
  then have "in_room st sid rt (snd (join E st u sid rt s))"
    by (simp add: join_success_iff_member)
  then show ?thesis by (simp add: join_member)
next
  case False
  then have out: "\<not> in_room st sid rt s"
    by (auto simp: join_member)
  show ?thesis
  proof (cases st)
    case Workspace
    with False out have no: "\<not> isWorkspaceMember E (db s) sid u (Collaborator E)"
      by (auto simp: join_workspace_fresh)
    with out Workspace
    have s1: "snd (join E Workspace u sid rt s) = log (IsWorkspaceMember sid u (Collaborator E)) s"
      by (simp add: join_workspace_fresh)
    from out have "\<not> in_room Workspace sid rt (log (IsWorkspaceMember sid u (Collaborator E)) s)"
      using Workspace by (simp add: in_room_def)
    with no show ?thesis
      unfolding Workspace by (simp add: s1 join_workspace_fresh)
  next
    case Userspace
    with False out have "sid \<noteq> u"
      by (auto simp: join_userspace_fresh)
    with out Userspace show ?thesis
      by (simp add: join_userspace_fresh)
  qed
qed

text \<open>
  C4: for every state, user, space and room type, the rooms after two joins with the same
  arguments are the rooms after one; and when the connection is a member after the first
  call, the second call returns success without any access check: it leaves the whole
  state as it is, whatever the permission service would answer, and calls no service.
\<close>

theorem join_idempotent:
  "rooms (snd (join E st u sid rt (snd (join E st u sid rt s)))) = rooms (snd (join E st u sid rt s))
   \<and> (in_room st sid rt (snd (join E st u sid rt s)) \<longrightarrow>
        join E' st u sid rt (snd (join E st u sid rt s)) = (Inr (), snd (join E st u sid rt s))
        \<and> filter is_access_check
            (added (snd (join E st u sid rt s)) (snd (join E st u sid rt (snd (join E st u sid rt s)))))
          = [])"
  by (simp add: join_twice_rooms join_member)

theorem join_idempotent_witness:
  "in_room Workspace ''W1'' Sync (snd (join example_env Workspace ''A'' ''W1'' Sync example_world))
   \<and> join (example_env\<lparr>isWorkspaceMember := \<lambda>d ws u r. False\<rparr>) Workspace ''A'' ''W1'' Sync
        (snd (join example_env Workspace ''A'' ''W1'' Sync example_world))
      = (Inr (), snd (join example_env Workspace ''A'' ''W1'' Sync example_world))
   \<and> trace (snd (join example_env Workspace ''A'' ''W1'' Sync
               (snd (join example_env Workspace ''A'' ''W1'' Sync example_world))))
      = [IsWorkspaceMember ''W1'' ''A'' 1]"
proof -
  have m: "in_room Workspace ''W1'' Sync (snd (join example_env Workspace ''A'' ''W1'' Sync example_world))"
    by (simp add: example_env_def example_world_def join_def in_room_def
        WorkspaceSyncAdapter_assertAccessible_def)
  have t: "trace (snd (join example_env Workspace ''A'' ''W1'' Sync example_world))
      = [IsWorkspaceMember ''W1'' ''A'' 1]"
    by (simp add: example_env_def example_world_def join_def in_room_def room_def Room_def
        WorkspaceSyncAdapter_assertAccessible_def)
  show ?thesis
    using m t
      join_idempotent [of example_env Workspace "''A''" "''W1''" Sync example_world
        "example_env\<lparr>isWorkspaceMember := \<lambda>d ws u r. False\<rparr>"]
      join_idempotent [of example_env Workspace "''A''" "''W1''" Sync example_world example_env]
    by simp
qed

text \<open>
  When the first call was denied the connection is no member, and the second call asks
  the permission service again.
\<close>

lemma join_denied_checks_again:
  "\<not> in_room Workspace sid rt s \<Longrightarrow> \<not> isWorkspaceMember E (db s) sid u (Collaborator E) \<Longrightarrow>
   added s (snd (join E Workspace u sid rt (snd (join E Workspace u sid rt s))))
     = [IsWorkspaceMember sid u (Collaborator E), IsWorkspaceMember sid u (Collaborator E)]"
proof -
  assume out: "\<not> in_room Workspace sid rt s"
    and no: "\<not> isWorkspaceMember E (db s) sid u (Collaborator E)"
  then have s1: "snd (join E Workspace u sid rt s) = log (IsWorkspaceMember sid u (Collaborator E)) s"
    by (simp add: join_workspace_fresh)
  from out have "\<not> in_room Workspace sid rt (log (IsWorkspaceMember sid u (Collaborator E)) s)"
    by (simp add: in_room_def)
  with no show ?thesis
    by (simp add: s1 join_workspace_fresh)
qed

subsection \<open>Operations that need the sync room\<close>

lemma assertIn_iff [simp]:
  "assertIn st sid rt s = (if in_room st sid rt s then Inr () else Inl (NotInSpace sid))"
  by (simp add: assertIn_def in_room_def)

lemma SyncSocketAdapter_push_out:
  "\<not> in_room st sid Sync s \<Longrightarrow>
   SyncSocketAdapter_push E st sid did ups ed s = (Inl (NotInSpace sid), s)"
  by (simp add: SyncSocketAdapter_push_def)

lemma SyncSocketAdapter_push_in:
  "in_room st sid Sync s \<Longrightarrow>
   SyncSocketAdapter_push E st sid did ups ed s =
     (Inr (fst (pushDocUpdates E st (db s) sid did ups ed)),
      log (PushDocUpdates st sid did ups ed)
        (s\<lparr>db := snd (pushDocUpdates E st (db s) sid did ups ed)\<rparr>))"
  by (simp add: SyncSocketAdapter_push_def split: prod.splits)

lemma push_out:
  "\<not> in_room st sid Sync s \<Longrightarrow> push E st sid did ups ed s = (Inl (NotInSpace sid), s)"
  by (cases st) (simp_all add: WorkspaceSyncAdapter_push_def SyncSocketAdapter_push_out Let_def)

lemma delete_out:
  "\<not> in_room st sid Sync s \<Longrightarrow> delete E st sid did s = (Inl (NotInSpace sid), s)"
  by (simp add: delete_def SyncSocketAdapter_delete_def)

lemma getTimestamps_out:
  "\<not> in_room st sid Sync s \<Longrightarrow> getTimestamps E st sid since s = (Inl (NotInSpace sid), s)"
  by (simp add: getTimestamps_def SyncSocketAdapter_getTimestamps_def)

lemma SyncSocketAdapter_diff_out:
  "\<not> in_room st sid Sync s \<Longrightarrow>
   SyncSocketAdapter_diff E st sid did sv s = (Inl (NotInSpace sid), s)"
  by (simp add: SyncSocketAdapter_diff_def)

lemma SyncSocketAdapter_diff_in:
  "in_room st sid Sync s \<Longrightarrow>
   SyncSocketAdapter_diff E st sid did sv s =
     (Inr (getDocDiff E st (db s) sid did sv), log (GetDocDiff st sid did sv) s)"
  by (simp add: SyncSocketAdapter_diff_def)

lemma userspace_diff_out:
  "\<not> in_room Userspace sid Sync s \<Longrightarrow> diff E Userspace sid did sv s = (Inl (NotInSpace sid), s)"
  by (simp add: SyncSocketAdapter_diff_out)

text \<open>The workspace override of \<open>diff\<close> never looks at the rooms.\<close>

lemma WorkspaceSyncAdapter_diff_unguarded:
  "WorkspaceSyncAdapter_diff E sid did sv s =
     (Inr (docReader_getDocDiff E (db s) sid (DocID_guid E did sid) sv),
      log (DocReader_getDocDiff sid (DocID_guid E did sid) sv) s)"
  by (simp add: WorkspaceSyncAdapter_diff_def Let_def)

text \<open>
  C2, as stated, fails for \<open>diff\<close> on the workspace adapter: the override goes to the doc
  reader without \<open>assertIn\<close>. On a connection that joined nothing, \<open>diff\<close> for doc \<open>D1\<close>
  of workspace \<open>W1\<close> calls the doc reader and returns the doc; it does not raise
  \<open>NotInSpace\<close>.
\<close>

theorem workspace_diff_without_join:
  "\<not> in_room Workspace ''W1'' Sync example_world
   \<and> diff example_env Workspace ''W1'' ''D1'' None example_world =
       (Inr (Some \<lparr>missing = [104, 105], state = [33], timestamp = 7\<rparr>),
        example_world\<lparr>trace := [DocReader_getDocDiff ''W1'' ''guid-D1'' None]\<rparr>)"
  by (simp add: in_room_def example_world_def example_env_def WorkspaceSyncAdapter_diff_def log_def)

lemma onLoadSpaceDoc_out:
  "\<not> in_room st sid Sync s \<Longrightarrow> onLoadSpaceDoc E st sid did sv s = (Inl (NotInSpace sid), s)"
  by (simp add: onLoadSpaceDoc_def)

text \<open>
  C2, amended: on a connection that has not joined the sync room of the space, \<open>push\<close>,
  \<open>delete\<close> and \<open>getTimestamps\<close> of both adapters and \<open>diff\<close> of the userspace adapter
  raise \<open>NotInSpace\<close> and leave everything as it is (no storage call). The workspace
  adapter's \<open>diff\<close> makes no membership check of its own and reads through the doc reader;
  its check is the \<open>assertIn\<close> of the load-doc handler, the only caller: \<open>space:load-doc\<close>
  of either space type and the legacy \<open>doc-load-v2\<close> raise \<open>NotInSpace\<close> on an unjoined
  space without reaching the doc reader or storage.
\<close>

theorem unjoined_operations_raise_NotInSpace:
  "\<not> in_room st spaceId Sync s \<Longrightarrow>
     push E st spaceId docId updates editorId s = (Inl (NotInSpace spaceId), s)
   \<and> delete E st spaceId docId s = (Inl (NotInSpace spaceId), s)
   \<and> getTimestamps E st spaceId since s = (Inl (NotInSpace spaceId), s)
   \<and> (st = Userspace \<longrightarrow>
        diff E st spaceId docId stateVector s = (Inl (NotInSpace spaceId), s))
   \<and> (st = Workspace \<longrightarrow>
        diff E st spaceId docId stateVector s =
          (Inr (docReader_getDocDiff E (db s) spaceId (DocID_guid E docId spaceId) stateVector),
           log (DocReader_getDocDiff spaceId (DocID_guid E docId spaceId) stateVector) s))
   \<and> onLoadSpaceDoc E st spaceId docId sv s = (Inl (NotInSpace spaceId), s)
   \<and> (st = Workspace \<longrightarrow> loadDocV2 E spaceId docId sv s = (Inl (NotInSpace spaceId), s))"
  by (auto simp: push_out delete_out getTimestamps_out SyncSocketAdapter_diff_out
      WorkspaceSyncAdapter_diff_unguarded onLoadSpaceDoc_out loadDocV2_def)

theorem unjoined_operations_raise_NotInSpace_witness:
  "\<not> in_room Workspace ''W1'' Sync example_world
   \<and> \<not> in_room Userspace ''A'' Sync example_world
   \<and> push example_env Workspace ''W1'' ''D1'' [[1]] ''A'' example_world
       = (Inl (NotInSpace ''W1''), example_world)
   \<and> delete example_env Workspace ''W1'' ''D1'' example_world
       = (Inl (NotInSpace ''W1''), example_world)
   \<and> getTimestamps example_env Workspace ''W1'' None example_world
       = (Inl (NotInSpace ''W1''), example_world)
   \<and> diff example_env Userspace ''A'' ''D1'' None example_world
       = (Inl (NotInSpace ''A''), example_world)
   \<and> onLoadSpaceDoc example_env Workspace ''W1'' ''D1'' None example_world
       = (Inl (NotInSpace ''W1''), example_world)
   \<and> loadDocV2 example_env ''W1'' ''D1'' None example_world
       = (Inl (NotInSpace ''W1''), example_world)"
proof -
  have w: "\<not> in_room Workspace ''W1'' Sync example_world"
    and u: "\<not> in_room Userspace ''A'' Sync example_world"
    by (simp_all add: in_room_def example_world_def)
  show ?thesis
    using w u
      unjoined_operations_raise_NotInSpace [OF w, where E = example_env and docId = "''D1''"
        and updates = "[[1]]" and editorId = "''A''" and since = None and sv = None]
      unjoined_operations_raise_NotInSpace [OF u, where E = example_env and docId = "''D1''"
        and stateVector = None]
    by simp
qed

subsection \<open>Loading a document\<close>

lemma diff_joined:
  "in_room st sid Sync s \<Longrightarrow> \<exists>r. fst (diff E st sid did sv s) = Inr r"
  by (cases st) (simp_all add: WorkspaceSyncAdapter_diff_unguarded SyncSocketAdapter_diff_in)

text \<open>
  C6: for every \<open>space:load-doc\<close> request on a joined space, the adapter's \<open>diff\<close> returns
  (it does not raise); when it returns no doc the handler raises \<open>DocNotFound\<close> with the
  space id and the doc id of the request; when it returns a doc the reply holds \<open>missing\<close>
  and \<open>state\<close> base64-encoded and the doc's \<open>timestamp\<close>.
\<close>

theorem onLoadSpaceDoc_result:
  "in_room st spaceId Sync s \<Longrightarrow>
     (\<exists>r. fst (diff E st spaceId docId (stateVector_bytes E stateVector) s) = Inr r)
   \<and> (fst (diff E st spaceId docId (stateVector_bytes E stateVector) s) = Inr None \<longrightarrow>
        fst (onLoadSpaceDoc E st spaceId docId stateVector s) = Inl (DocNotFound spaceId docId))
   \<and> (fst (diff E st spaceId docId (stateVector_bytes E stateVector) s) = Inr (Some doc) \<longrightarrow>
        fst (onLoadSpaceDoc E st spaceId docId stateVector s) =
          Inr \<lparr>missing = base64_encode E (missing doc),
               state = base64_encode E (state doc),
               timestamp = timestamp doc\<rparr>)"
proof (intro conjI impI)
  assume "in_room st spaceId Sync s"
  then show "\<exists>r. fst (diff E st spaceId docId (stateVector_bytes E stateVector) s) = Inr r"
    by (rule diff_joined)
next
  assume "in_room st spaceId Sync s"
    and "fst (diff E st spaceId docId (stateVector_bytes E stateVector) s) = Inr None"
  then show "fst (onLoadSpaceDoc E st spaceId docId stateVector s) = Inl (DocNotFound spaceId docId)"
    by (cases "diff E st spaceId docId (stateVector_bytes E stateVector) s")
       (simp add: onLoadSpaceDoc_def)
next
  assume "in_room st spaceId Sync s"
    and "fst (diff E st spaceId docId (stateVector_bytes E stateVector) s) = Inr (Some doc)"
  then show "fst (onLoadSpaceDoc E st spaceId docId stateVector s) =
          Inr \<lparr>missing = base64_encode E (missing doc),
               state = base64_encode E (state doc),
               timestamp = timestamp doc\<rparr>"
    by (cases "diff E st spaceId docId (stateVector_bytes E stateVector) s")
       (simp add: onLoadSpaceDoc_def)
qed

text \<open>The joined example connection is the example connection after \<open>A\<close> joined \<open>W1\<close>.\<close>

lemma joined_world_eq: "snd (join example_env Workspace ''A'' ''W1'' Sync example_world) = joined_world"
  by (simp add: example_env_def example_world_def join_def in_room_def room_def Room_def
        WorkspaceSyncAdapter_assertAccessible_def joined_world_def log_def)

lemma joined_world_in: "in_room Workspace ''W1'' Sync joined_world"
  by (simp add: joined_world_def in_room_def room_def Room_def)

theorem onLoadSpaceDoc_result_witness:
  "in_room Workspace ''W1'' Sync joined_world
   \<and> fst (onLoadSpaceDoc example_env Workspace ''W1'' ''D1'' None joined_world)
       = Inr \<lparr>missing = ''hi'', state = ''!'', timestamp = 7\<rparr>
   \<and> fst (onLoadSpaceDoc example_env Workspace ''W1'' ''D2'' (Some ''sv'') joined_world)
       = Inl (DocNotFound ''W1'' ''D2'')"
proof -
  have d1: "fst (diff example_env Workspace ''W1'' ''D1'' (stateVector_bytes example_env None) joined_world)
      = Inr (Some \<lparr>missing = [104, 105], state = [33], timestamp = 7\<rparr>)"
    by (simp add: WorkspaceSyncAdapter_diff_unguarded example_env_def stateVector_bytes_def)
  have d2: "fst (diff example_env Workspace ''W1'' ''D2'' (stateVector_bytes example_env (Some ''sv'')) joined_world)
      = Inr None"
    by (simp add: WorkspaceSyncAdapter_diff_unguarded example_env_def stateVector_bytes_def)
  have enc: "base64_encode example_env [104, 105] = ''hi''" "base64_encode example_env [33] = ''!''"
    by code_simp+
  show ?thesis
    using joined_world_in d1 d2 enc
      onLoadSpaceDoc_result [OF joined_world_in, where E = example_env and docId = "''D1''"
        and stateVector = None and doc = "\<lparr>missing = [104, 105], state = [33], timestamp = 7\<rparr>"]
      onLoadSpaceDoc_result [OF joined_world_in, where E = example_env and docId = "''D2''"
        and stateVector = "Some ''sv''"]
    by simp
qed


subsection \<open>Pushing updates\<close>

lemma WorkspaceSyncAdapter_push_eq:
  "WorkspaceSyncAdapter_push E sid did ups ed s =
     SyncSocketAdapter_push E Workspace sid (DocID_guid E did sid) ups ed s"
  by (simp add: WorkspaceSyncAdapter_push_def Let_def)

lemma SyncSocketAdapter_push_added:
  "added s (snd (SyncSocketAdapter_push E st sid did ups ed s)) =
     (if in_room st sid Sync s then [PushDocUpdates st sid did ups ed] else [])"
  by (simp add: SyncSocketAdapter_push_in SyncSocketAdapter_push_out)

text \<open>
  C8: the workspace adapter's push is the base push at the translated doc id, the
  userspace adapter's push is the base push at the doc id as given; space id, updates
  and editor id go through unchanged. What reaches storage on a joined space is the one
  call \<open>pushDocUpdates(spaceId, guid, updates, editorId)\<close> on the workspace storage,
  \<open>pushDocUpdates(spaceId, docId, updates, editorId)\<close> on the userspace storage, and
  nothing else happens; the translation \<open>DocID_guid\<close> is a function of the doc id and the
  space id alone.
\<close>

theorem push_translates_docId_for_workspace_only:
  "push E Workspace spaceId docId updates editorId s
     = SyncSocketAdapter_push E Workspace spaceId (DocID_guid E docId spaceId) updates editorId s
   \<and> push E Userspace spaceId docId updates editorId s
     = SyncSocketAdapter_push E Userspace spaceId docId updates editorId s
   \<and> added s (snd (push E Workspace spaceId docId updates editorId s))
     = (if in_room Workspace spaceId Sync s
        then [PushDocUpdates Workspace spaceId (DocID_guid E docId spaceId) updates editorId]
        else [])
   \<and> added s (snd (push E Userspace spaceId docId updates editorId s))
     = (if in_room Userspace spaceId Sync s
        then [PushDocUpdates Userspace spaceId docId updates editorId]
        else [])"
  by (simp add: WorkspaceSyncAdapter_push_eq SyncSocketAdapter_push_added)

theorem push_translates_docId_for_workspace_only_witness:
  "added joined_world (snd (push example_env Workspace ''W1'' ''D1'' [[1, 2]] ''A'' joined_world))
     = [PushDocUpdates Workspace ''W1'' ''guid-D1'' [[1, 2]] ''A'']
   \<and> added (joined_world\<lparr>rooms := {''userspace:A:sync''}\<rparr>)
        (snd (push example_env Userspace ''A'' ''D1'' [[1, 2]] ''A''
               (joined_world\<lparr>rooms := {''userspace:A:sync''}\<rparr>)))
     = [PushDocUpdates Userspace ''A'' ''D1'' [[1, 2]] ''A'']"
proof -
  have g: "DocID_guid example_env ''D1'' ''W1'' = ''guid-D1''"
    by (simp add: example_env_def)
  have u: "in_room Userspace ''A'' Sync (joined_world\<lparr>rooms := {''userspace:A:sync''}\<rparr>)"
    by (simp add: in_room_def room_def Room_def)
  show ?thesis
    using g u joined_world_in
      push_translates_docId_for_workspace_only
        [of example_env "''W1''" "''D1''" "[[1, 2]]" "''A''" joined_world]
      push_translates_docId_for_workspace_only
        [of example_env "''A''" "''D1''" "[[1, 2]]" "''A''" "joined_world\<lparr>rooms := {''userspace:A:sync''}\<rparr>"]
    by (simp add: WorkspaceSyncAdapter_push_eq)
qed

lemma push_result:
  "push E st sid did ups ed s =
     SyncSocketAdapter_push E st sid (case st of Workspace \<Rightarrow> DocID_guid E did sid | Userspace \<Rightarrow> did)
       ups ed s"
  by (cases st) (simp_all add: WorkspaceSyncAdapter_push_eq)

lemma onReceiveDocUpdates_out:
  "\<not> in_room st sid Sync s \<Longrightarrow>
   onReceiveDocUpdates E uid st sid did ups s = (Inl (NotInSpace sid), s)"
  by (simp add: onReceiveDocUpdates_def push_result SyncSocketAdapter_push_out)

lemma onReceiveDocUpdates_reply:
  "fst (onReceiveDocUpdates E uid st sid did ups s) = Inr (a, ts) \<Longrightarrow>
   in_room st sid Sync s \<and> a
   \<and> ts = fst (pushDocUpdates E st (db s) sid
               (case st of Workspace \<Rightarrow> DocID_guid E did sid | Userspace \<Rightarrow> did)
               (map (base64_decode E) ups) uid)"
proof (cases "in_room st sid Sync s")
  case False
  assume "fst (onReceiveDocUpdates E uid st sid did ups s) = Inr (a, ts)"
  with False show ?thesis by (simp add: onReceiveDocUpdates_out)
next
  case True
  assume "fst (onReceiveDocUpdates E uid st sid did ups s) = Inr (a, ts)"
  with True show ?thesis
    by (auto simp: onReceiveDocUpdates_def push_result SyncSocketAdapter_push_in Let_def)
qed

lemma onReceiveDocUpdates_added:
  "in_room st sid Sync s \<Longrightarrow>
   added s (snd (onReceiveDocUpdates E uid st sid did ups s)) =
     (let g = (case st of Workspace \<Rightarrow> DocID_guid E did sid | Userspace \<Rightarrow> did);
          ts = fst (pushDocUpdates E st (db s) sid g (map (base64_decode E) ups) uid)
      in PushDocUpdates st sid g (map (base64_decode E) ups) uid
         # Broadcast (room st sid Sync) (space_broadcast_doc_updates st sid did ups ts)
         # (if st = Workspace
            then [Broadcast (room st sid Sync) (server_updates sid (DocID_guid E did sid) ups ts)]
            else []))"
  by (simp add: onReceiveDocUpdates_def push_result SyncSocketAdapter_push_in Let_def)

lemma onReceiveDocUpdate_out:
  "\<not> in_room st sid Sync s \<Longrightarrow>
   onReceiveDocUpdate E uid st sid did u s = (Inl (NotInSpace sid), s)"
  by (simp add: onReceiveDocUpdate_def push_result SyncSocketAdapter_push_out)

lemma onReceiveDocUpdate_added:
  "in_room st sid Sync s \<Longrightarrow>
   added s (snd (onReceiveDocUpdate E uid st sid did u s)) =
     (let g = (case st of Workspace \<Rightarrow> DocID_guid E did sid | Userspace \<Rightarrow> did);
          ts = fst (pushDocUpdates E st (db s) sid g [base64_decode E u] uid)
      in [PushDocUpdates st sid g [base64_decode E u] uid,
          Broadcast (room st sid Sync) (space_broadcast_doc_updates st sid did [u] ts),
          Broadcast (room st sid Sync) (space_broadcast_doc_update st sid did u ts uid)])"
  by (simp add: onReceiveDocUpdate_def push_result SyncSocketAdapter_push_in Let_def)

text \<open>
  C9: for every accepted \<open>space:push-doc-updates\<close> request (reply
  \<open>{accepted: true, timestamp: ts}\<close>), the broadcasts are \<open>space:broadcast-doc-updates\<close> to
  the sync room and, exactly when the space type is workspace, a \<open>server-updates\<close> event
  with the flat fields \<open>workspaceId\<close>, \<open>guid\<close>, \<open>updates\<close>, \<open>timestamp\<close> to the same room; for
  a userspace the first is the only broadcast.
\<close>

theorem onReceiveDocUpdates_legacy_broadcast:
  "fst (onReceiveDocUpdates E user_id st spaceId docId updates s) = Inr (True, ts) \<Longrightarrow>
   filter is_broadcast (added s (snd (onReceiveDocUpdates E user_id st spaceId docId updates s)))
     = (if st = Workspace
        then [Broadcast (room st spaceId Sync) (space_broadcast_doc_updates st spaceId docId updates ts),
              Broadcast (room st spaceId Sync)
                (server_updates spaceId (DocID_guid E docId spaceId) updates ts)]
        else [Broadcast (room st spaceId Sync) (space_broadcast_doc_updates st spaceId docId updates ts)])
   \<and> (filter is_server_updates
          (added s (snd (onReceiveDocUpdates E user_id st spaceId docId updates s))) \<noteq> [])
       = (st = Workspace)"
proof -
  assume ok: "fst (onReceiveDocUpdates E user_id st spaceId docId updates s) = Inr (True, ts)"
  from onReceiveDocUpdates_reply [OF ok]
  have m: "in_room st spaceId Sync s"
    and ts: "ts = fst (pushDocUpdates E st (db s) spaceId
               (case st of Workspace \<Rightarrow> DocID_guid E docId spaceId | Userspace \<Rightarrow> docId)
               (map (base64_decode E) updates) user_id)"
    by simp_all
  show ?thesis
    by (simp add: onReceiveDocUpdates_added [OF m] ts Let_def)
qed

theorem onReceiveDocUpdates_legacy_broadcast_witness:
  "fst (onReceiveDocUpdates example_env ''A'' Workspace ''W1'' ''D1'' [''ab'', ''c''] joined_world)
     = Inr (True, 1)
   \<and> filter is_broadcast (added joined_world
        (snd (onReceiveDocUpdates example_env ''A'' Workspace ''W1'' ''D1'' [''ab'', ''c''] joined_world)))
     = [Broadcast ''workspace:W1:sync''
          (space_broadcast_doc_updates Workspace ''W1'' ''D1'' [''ab'', ''c''] 1),
        Broadcast ''workspace:W1:sync'' (server_updates ''W1'' ''guid-D1'' [''ab'', ''c''] 1)]
   \<and> fst (onReceiveDocUpdates example_env ''A'' Userspace ''A'' ''D1'' [''ab'', ''c'']
            (joined_world\<lparr>rooms := {''userspace:A:sync''}\<rparr>))
     = Inr (True, 1)
   \<and> filter is_broadcast (added (joined_world\<lparr>rooms := {''userspace:A:sync''}\<rparr>)
        (snd (onReceiveDocUpdates example_env ''A'' Userspace ''A'' ''D1'' [''ab'', ''c'']
               (joined_world\<lparr>rooms := {''userspace:A:sync''}\<rparr>))))
     = [Broadcast ''userspace:A:sync''
          (space_broadcast_doc_updates Userspace ''A'' ''D1'' [''ab'', ''c''] 1)]"
proof -
  have w: "fst (onReceiveDocUpdates example_env ''A'' Workspace ''W1'' ''D1'' [''ab'', ''c''] joined_world)
     = Inr (True, 1)"
    by (simp add: onReceiveDocUpdates_def push_result SyncSocketAdapter_push_in joined_world_in Let_def)
       (simp add: example_env_def joined_world_def)
  have uin: "in_room Userspace ''A'' Sync (joined_world\<lparr>rooms := {''userspace:A:sync''}\<rparr>)"
    by (simp add: in_room_def room_def Room_def)
  have u: "fst (onReceiveDocUpdates example_env ''A'' Userspace ''A'' ''D1'' [''ab'', ''c'']
            (joined_world\<lparr>rooms := {''userspace:A:sync''}\<rparr>)) = Inr (True, 1)"
    by (simp add: onReceiveDocUpdates_def push_result SyncSocketAdapter_push_in uin Let_def)
       (simp add: example_env_def joined_world_def)
  have r: "room Workspace ''W1'' Sync = ''workspace:W1:sync''"
      "room Userspace ''A'' Sync = ''userspace:A:sync''"
      "DocID_guid example_env ''D1'' ''W1'' = ''guid-D1''"
    by (simp_all add: room_def Room_def example_env_def)
  show ?thesis
    using w u r onReceiveDocUpdates_legacy_broadcast [OF w] onReceiveDocUpdates_legacy_broadcast [OF u]
    by simp
qed

text \<open>A rejected request broadcasts nothing, whatever the space type.\<close>

lemma onReceiveDocUpdates_rejected:
  "fst (onReceiveDocUpdates E uid st sid did ups s) = Inl e \<Longrightarrow>
   e = NotInSpace sid \<and> snd (onReceiveDocUpdates E uid st sid did ups s) = s"
proof (cases "in_room st sid Sync s")
  case False
  assume "fst (onReceiveDocUpdates E uid st sid did ups s) = Inl e"
  with False show ?thesis by (simp add: onReceiveDocUpdates_out)
next
  case True
  assume "fst (onReceiveDocUpdates E uid st sid did ups s) = Inl e"
  with True show ?thesis
    by (simp add: onReceiveDocUpdates_def push_result SyncSocketAdapter_push_in Let_def)
qed

subsection \<open>The legacy update message\<close>

text \<open>
  C7: \<open>client-update-v2\<close> with \<open>{workspaceId: W, guid: D, updates: [u]}\<close> and
  \<open>space:push-doc-update\<close> with \<open>{spaceType: workspace, spaceId: W, docId: D, update: u}\<close>,
  run from the same state, give the same reply, leave the same storage state and rooms,
  make the same storage calls and the same \<open>space:broadcast-doc-updates\<close> broadcasts: on a
  joined workspace the one push \<open>(W, guid of D, [decoded u], user id)\<close> and the one broadcast
  \<open>{spaceType, spaceId, docId, updates: [u], timestamp}\<close> to the sync room of \<open>W\<close>, otherwise
  none.
\<close>

theorem client_update_v2_same_as_push_doc_update:
  "fst (handleClientUpdateV2 E user_id W D [u] s) = fst (onReceiveDocUpdate E user_id Workspace W D u s)
   \<and> db (snd (handleClientUpdateV2 E user_id W D [u] s))
       = db (snd (onReceiveDocUpdate E user_id Workspace W D u s))
   \<and> rooms (snd (handleClientUpdateV2 E user_id W D [u] s))
       = rooms (snd (onReceiveDocUpdate E user_id Workspace W D u s))
   \<and> filter is_storage_call (added s (snd (handleClientUpdateV2 E user_id W D [u] s)))
       = filter is_storage_call (added s (snd (onReceiveDocUpdate E user_id Workspace W D u s)))
   \<and> filter is_broadcast_doc_updates (added s (snd (handleClientUpdateV2 E user_id W D [u] s)))
       = filter is_broadcast_doc_updates (added s (snd (onReceiveDocUpdate E user_id Workspace W D u s)))
   \<and> filter is_storage_call (added s (snd (handleClientUpdateV2 E user_id W D [u] s)))
       = (if in_room Workspace W Sync s
          then [PushDocUpdates Workspace W (DocID_guid E D W) [base64_decode E u] user_id]
          else [])
   \<and> filter is_broadcast_doc_updates (added s (snd (handleClientUpdateV2 E user_id W D [u] s)))
       = (if in_room Workspace W Sync s
          then [Broadcast (room Workspace W Sync)
                  (space_broadcast_doc_updates Workspace W D [u]
                     (fst (pushDocUpdates E Workspace (db s) W (DocID_guid E D W)
                            [base64_decode E u] user_id)))]
          else [])"
proof (cases "in_room Workspace W Sync s")
  case False
  then show ?thesis
    by (simp add: handleClientUpdateV2_def onReceiveDocUpdates_out onReceiveDocUpdate_out)
next
  case True
  have reply: "fst (handleClientUpdateV2 E user_id W D [u] s)
      = fst (onReceiveDocUpdate E user_id Workspace W D u s)"
    using True
    by (simp add: handleClientUpdateV2_def onReceiveDocUpdates_def onReceiveDocUpdate_def
        push_result SyncSocketAdapter_push_in Let_def)
  have store: "db (snd (handleClientUpdateV2 E user_id W D [u] s))
       = db (snd (onReceiveDocUpdate E user_id Workspace W D u s))"
    "rooms (snd (handleClientUpdateV2 E user_id W D [u] s))
       = rooms (snd (onReceiveDocUpdate E user_id Workspace W D u s))"
    using True
    by (simp_all add: handleClientUpdateV2_def onReceiveDocUpdates_def onReceiveDocUpdate_def
        push_result SyncSocketAdapter_push_in Let_def)
  show ?thesis
    using True reply store
    by (simp add: handleClientUpdateV2_def onReceiveDocUpdates_added onReceiveDocUpdate_added Let_def)
qed

theorem client_update_v2_same_as_push_doc_update_witness:
  "added joined_world (snd (handleClientUpdateV2 example_env ''A'' ''W1'' ''D1'' [''abc''] joined_world))
     = [PushDocUpdates Workspace ''W1'' ''guid-D1'' [[97, 98, 99]] ''A'',
        Broadcast ''workspace:W1:sync''
          (space_broadcast_doc_updates Workspace ''W1'' ''D1'' [''abc''] 1),
        Broadcast ''workspace:W1:sync'' (server_updates ''W1'' ''guid-D1'' [''abc''] 1)]
   \<and> filter is_storage_call
        (added joined_world (snd (onReceiveDocUpdate example_env ''A'' Workspace ''W1'' ''D1'' ''abc'' joined_world)))
     = [PushDocUpdates Workspace ''W1'' ''guid-D1'' [[97, 98, 99]] ''A'']
   \<and> filter is_broadcast_doc_updates
        (added joined_world (snd (onReceiveDocUpdate example_env ''A'' Workspace ''W1'' ''D1'' ''abc'' joined_world)))
     = [Broadcast ''workspace:W1:sync''
          (space_broadcast_doc_updates Workspace ''W1'' ''D1'' [''abc''] 1)]"
proof -
  have l: "added joined_world
      (snd (handleClientUpdateV2 example_env ''A'' ''W1'' ''D1'' [''abc''] joined_world))
     = [PushDocUpdates Workspace ''W1'' ''guid-D1'' [[97, 98, 99]] ''A'',
        Broadcast ''workspace:W1:sync''
          (space_broadcast_doc_updates Workspace ''W1'' ''D1'' [''abc''] 1),
        Broadcast ''workspace:W1:sync'' (server_updates ''W1'' ''guid-D1'' [''abc''] 1)]"
    by (simp add: handleClientUpdateV2_def onReceiveDocUpdates_added [OF joined_world_in] Let_def)
       (simp add: example_env_def joined_world_def room_def Room_def)
  show ?thesis
    using l client_update_v2_same_as_push_doc_update
      [of example_env "''A''" "''W1''" "''D1''" "''abc''" joined_world]
    by simp
qed

subsection \<open>Leaving, and the legacy handshake\<close>

lemma leave_not_member: "\<not> in_room st sid rt s \<Longrightarrow> leave st sid rt s = (Inr (), s)"
  by (simp add: leave_def)

lemma leave_never_fails: "fst (leave st sid rt s) = Inr ()"
  by (simp add: leave_def)

lemma leave_member:
  "in_room st sid rt s \<Longrightarrow> \<not> in_room st sid rt (snd (leave st sid rt s))"
  by (simp add: leave_def in_room_def)

text \<open>
  The legacy handshake checks the version itself and again inside \<open>onJoinSpace\<close>; a
  mismatch stops at the first check, so the caller is still notified once.
\<close>

lemma handleClientHandshakeSync_rejects_once:
  "syncClientVersionCheck E \<Longrightarrow> ver \<noteq> Some (AFFiNE_version E) \<Longrightarrow>
   added s (snd (handleClientHandshakeSync E uid W ver s))
     = [Emit (server_version_rejected ver (AFFiNE_version E) (rejected_reason ver (AFFiNE_version E)))]"
  by (simp add: handleClientHandshakeSync_def assertVersion_rejects)

lemma handleClientHandshakeSync_accepted:
  "assertVersion E ver s = (Inr (), s) \<Longrightarrow>
   handleClientHandshakeSync E uid W ver s = onJoinSpace E uid Workspace W ver s"
  by (simp add: handleClientHandshakeSync_def)

text \<open>
  The colliding room names are reachable through the handlers: two
  \<open>space:join-awareness\<close> messages of user \<open>A\<close> with the server's version, the first for doc
  \<open>a:b\<close> of workspace \<open>W1\<close>, the second for doc \<open>b\<close> of the workspace \<open>W1:a\<close>. The second
  succeeds with one permission call in all, the one of the first message.
\<close>

lemma onJoinAwareness_collision:
  "onJoinAwareness example_env ''A'' Workspace ''W1:a'' ''b'' (Some ''0.18.0'')
     (snd (onJoinAwareness example_env ''A'' Workspace ''W1'' ''a:b'' (Some ''0.18.0'') example_world))
   = (Inr (''c1'', True),
      \<lparr>client_id = ''c1'', rooms = {''workspace:W1:a:b:awareness''}, db = 0,
        trace = [IsWorkspaceMember ''W1'' ''A'' 1]\<rparr>)"
  by (simp add: onJoinAwareness_def assertVersion_def join_def in_room_def room_def Room_def
      WorkspaceSyncAdapter_assertAccessible_def example_env_def example_world_def log_def)

lemma loadDocV2_out:
  "\<not> in_room Workspace W Sync s \<Longrightarrow> loadDocV2 E W D sv s = (Inl (NotInSpace W), s)"
  by (simp add: loadDocV2_def onLoadSpaceDoc_out)

end
